theory Spec2Isabelle
  imports Main "HOL-Library.Word"
begin

section \<open>The WebSocket relay layer of mitmproxy (proxy/layers/websocket.py)\<close>

text \<open>
  The layer sits between a client-facing and a server-facing connection. Bytes of one
  side are fed to that side's wsproto connection, the events it produces are relayed to
  the other side. The protocol library (wsproto), the addons behind the hooks and
  Python's text codec are not part of the file: they are parameters of the model.
\<close>

subsection \<open>Data\<close>

type_synonym byte = "8 word"
type_synonym bytes = "byte list"
type_synonym str = string

text \<open>The \<open>data\<close> attribute of a wsproto message event: a \<open>str\<close> or \<open>bytes\<close>.\<close>

datatype msg_data = Str str | Bytes bytes

text \<open>
  The events of a wsproto connection that \<open>relay_messages\<close> tells apart. \<open>Message\<close>
  carries \<open>data\<close> and \<open>message_finished\<close>; a \<open>TextMessage\<close> is a \<open>Message\<close> with
  \<open>Str\<close> data, a \<open>BytesMessage\<close> one with \<open>Bytes\<close> data. \<open>CloseConnection\<close> carries
  \<open>code\<close> and the optional \<open>reason\<close>. \<open>OtherEvent\<close> is any other event class.
\<close>

datatype ws_event =
    Message msg_data bool
  | Ping bytes
  | Pong bytes
  | CloseConnection int "str option"
  | OtherEvent

subsection \<open>Fragmentizer\<close>

definition FRAGMENT_SIZE :: nat where
  "FRAGMENT_SIZE = 4000"

record Fragmentizer =
  fragment_lengths :: "nat list"
  is_text :: bool

text \<open>
  Exceptions: an assertion of the layer that fails (with the asserted expression or the
  message), an attribute read on \<open>None\<close>, and whatever the protocol library raises.
\<close>

datatype exception =
    AssertionError str
  | AttributeError str
  | LibraryError str

text \<open>\<open>Fragmentizer.__init__\<close>: \<open>assert fragments\<close> fails on the empty list.\<close>

definition Fragmentizer_init :: "bytes list \<Rightarrow> bool \<Rightarrow> exception + Fragmentizer" where
  "Fragmentizer_init fragments t =
     (if fragments = [] then Inl (AssertionError ''fragments'')
      else Inr \<lparr>fragment_lengths = map length fragments, is_text = t\<rparr>)"

text \<open>
  \<open>Fragmentizer.msg\<close>. The first argument is \<open>bytes.decode(errors="replace")\<close> of the
  Python runtime.
\<close>

definition msg :: "(bytes \<Rightarrow> str) \<Rightarrow> Fragmentizer \<Rightarrow> bytes \<Rightarrow> bool \<Rightarrow> ws_event" where
  "msg decode F data message_finished =
     (if is_text F then Message (Str (decode data)) message_finished
      else Message (Bytes data) message_finished)"

text \<open>The slice \<open>content[a:b]\<close> for \<open>0 \<le> a \<le> b\<close>, and \<open>content[a:]\<close>.\<close>

definition slice :: "'a list \<Rightarrow> nat \<Rightarrow> nat \<Rightarrow> 'a list" where
  "slice content a b = take (b - a) (drop a content)"

definition slice_from :: "'a list \<Rightarrow> nat \<Rightarrow> 'a list" where
  "slice_from content a = drop a content"

text \<open>
  The two loops of \<open>Fragmentizer.__call__\<close>. Each returns the arguments
  \<open>(data, message_finished)\<close> of the calls of \<open>self.msg\<close> it makes, in order, and the
  value of \<open>offset\<close> when it ends.
\<close>

fun replay_loop :: "bytes \<Rightarrow> nat \<Rightarrow> nat list \<Rightarrow> (bytes \<times> bool) list \<times> nat" where
  "replay_loop content offset [] = ([], offset)"
| "replay_loop content offset (fl # fls) =
     (case replay_loop content (offset + fl) fls of
        (ps, offset') \<Rightarrow> ((slice content offset (offset + fl), False) # ps, offset'))"

function rechunk_loop :: "bytes \<Rightarrow> int \<Rightarrow> nat \<Rightarrow> (bytes \<times> bool) list \<times> nat" where
  "rechunk_loop content tot offset =
     (if int offset < tot then
        (case rechunk_loop content tot (offset + FRAGMENT_SIZE) of
           (ps, offset') \<Rightarrow>
             ((slice content offset (offset + FRAGMENT_SIZE), False) # ps, offset'))
      else ([], offset))"
  by pat_completeness auto
termination
  by (relation "measure (\<lambda>(content, tot, offset). nat (tot - int offset))")
     (auto simp: FRAGMENT_SIZE_def)

declare rechunk_loop.simps [simp del]

text \<open>
  The arguments of the calls of \<open>self.msg\<close> made by \<open>Fragmentizer.__call__\<close>, in the
  order of the \<open>yield\<close>s.
\<close>

definition msg_calls :: "Fragmentizer \<Rightarrow> bytes \<Rightarrow> (bytes \<times> bool) list" where
  "msg_calls F content =
     (if content = [] then []
      else if length content = sum_list (fragment_lengths F) then
        (case replay_loop content 0 (butlast (fragment_lengths F)) of
           (ps, offset) \<Rightarrow> ps @ [(slice_from content offset, True)])
      else
        (case rechunk_loop content (int (length content) - int FRAGMENT_SIZE) 0 of
           (ps, offset) \<Rightarrow> ps @ [(slice_from content offset, True)]))"

text \<open>\<open>Fragmentizer.__call__\<close>: the events it yields.\<close>

definition Fragmentizer_call :: "(bytes \<Rightarrow> str) \<Rightarrow> Fragmentizer \<Rightarrow> bytes \<Rightarrow> ws_event list" where
  "Fragmentizer_call decode F content =
     map (\<lambda>(data, message_finished). msg decode F data message_finished) (msg_calls F content)"

subsection \<open>Flows, commands and events of the proxy\<close>

datatype Opcode = CONTINUATION | TEXT | BINARY | CLOSE | PING | PONG

datatype ConnectionState = CONNECTING | OPEN | REMOTE_CLOSING | LOCAL_CLOSING | CLOSED | REJECTING

text \<open>A transport connection, compared by identity.\<close>

type_synonym connection = nat

text \<open>\<open>websocket.WebSocketMessage\<close>; \<open>mtype\<close> is its attribute \<open>type\<close>.\<close>

record WebSocketMessage =
  mtype :: Opcode
  from_client :: bool
  content :: bytes
  killed :: bool

record WebSocketData =
  messages :: "WebSocketMessage list"
  closed_by_client :: "bool option"
  close_code :: "int option"
  close_reason :: "str option"

text \<open>The part of \<open>http.HTTPFlow\<close> the layer touches; \<open>error\<close> holds the message of \<open>flow.Error\<close>.\<close>

record Flow =
  websocket :: "WebSocketData option"
  error :: "str option"

text \<open>
  The commands the layer yields. \<open>CloseConnectionCommand\<close> is \<open>commands.CloseConnection\<close>
  (wsproto's event of the same name is \<open>CloseConnection\<close>); a hook carries the flow as
  it is when the hook is yielded.
\<close>

datatype command =
    Log str
  | SendData connection bytes
  | CloseConnectionCommand connection
  | WebsocketMessageHook Flow
  | WebsocketEndHook Flow
  | WebsocketErrorHook Flow

datatype event =
    DataReceived connection bytes
  | ConnectionClosed connection
  | OtherConnectionEvent connection

definition event_connection :: "event \<Rightarrow> connection" where
  "event_connection ev =
     (case ev of DataReceived c _ \<Rightarrow> c | ConnectionClosed c \<Rightarrow> c | OtherConnectionEvent c \<Rightarrow> c)"

text \<open>
  The guard of the decorator \<open>@expect(events.DataReceived, events.ConnectionClosed)\<close> on
  \<open>relay_messages\<close> and \<open>done\<close>: an event of another type is an AssertionError.
\<close>

definition expect :: "event \<Rightarrow> bool" where
  "expect ev = (case ev of DataReceived _ _ \<Rightarrow> True | ConnectionClosed _ \<Rightarrow> True
                | OtherConnectionEvent _ \<Rightarrow> False)"

subsection \<open>The environment of the layer\<close>

text \<open>
  What the layer calls and does not define, over the state \<open>'p\<close> of a wsproto connection:
  \<^item> \<open>ws_state\<close>: the attribute \<open>state\<close>;
  \<^item> \<open>ws_receive_data\<close>: \<open>receive_data(data)\<close>, \<open>None\<close> for the end of the stream; \<open>Inl\<close> when
    it raises;
  \<^item> \<open>ws_events\<close>: one step of the generator \<open>events()\<close>: \<open>None\<close> when it is exhausted,
    \<open>Inl\<close> when it raises, or the next event and the state left behind;
  \<^item> \<open>ws_send\<close>: \<open>send(event)\<close>, the encoded bytes and the new state, \<open>Inl\<close> when it raises;
  \<^item> \<open>CloseReason_name\<close>: \<open>CloseReason(code).name\<close>, \<open>None\<close> for the ValueError of a code
    that is no member of the enumeration;
  \<^item> \<open>str_encode\<close>, \<open>bytes_decode\<close>, \<open>bytes_repr\<close>: \<open>str.encode()\<close>,
    \<open>bytes.decode(errors="replace")\<close> and \<open>repr\<close> of a bytes object;
  \<^item> \<open>message_hook\<close>: what the addons called by \<open>WebsocketMessageHook\<close> leave of the
    message object, given the flow they are handed.
\<close>

record 'p env =
  ws_state :: "'p \<Rightarrow> ConnectionState"
  ws_receive_data :: "'p \<Rightarrow> bytes option \<Rightarrow> str + 'p"
  ws_events :: "'p \<Rightarrow> (str + ws_event \<times> 'p) option"
  ws_send :: "'p \<Rightarrow> ws_event \<Rightarrow> str + bytes \<times> 'p"
  CloseReason_name :: "int \<Rightarrow> str option"
  str_encode :: "str \<Rightarrow> bytes"
  bytes_decode :: "bytes \<Rightarrow> str"
  bytes_repr :: "bytes \<Rightarrow> str"
  message_hook :: "Flow \<Rightarrow> WebSocketMessage \<Rightarrow> WebSocketMessage"

subsection \<open>WebsocketConnection and WebsocketLayer\<close>

record 'p WebsocketConnection =
  proto :: 'p
  conn :: connection
  frame_buf :: "bytes list"

record Context =
  client :: connection
  server :: connection

text \<open>
  \<open>handle_event_attr\<close> is the attribute \<open>_handle_event\<close> once \<open>start\<close> has run: the
  handler \<open>relay_messages\<close> or the handler \<open>done\<close>. \<open>ctx\<close> is the attribute \<open>context\<close>.
\<close>

datatype handler = H_relay_messages | H_done

record 'p WebsocketLayer =
  flow :: Flow
  client_ws :: "'p WebsocketConnection"
  server_ws :: "'p WebsocketConnection"
  ctx :: Context
  handle_event_attr :: handler

text \<open>
  What a handler, a generator of commands, does: the commands it yields, the layer it
  leaves, and the exception that ends it, if one does.
\<close>

type_synonym 'p outcome = "command list \<times> 'p WebsocketLayer \<times> exception option"

definition src_ws :: "bool \<Rightarrow> 'p WebsocketLayer \<Rightarrow> 'p WebsocketConnection" where
  "src_ws fc l = (if fc then client_ws l else server_ws l)"

definition dst_ws :: "bool \<Rightarrow> 'p WebsocketLayer \<Rightarrow> 'p WebsocketConnection" where
  "dst_ws fc l = (if fc then server_ws l else client_ws l)"

definition set_src_ws :: "bool \<Rightarrow> 'p WebsocketConnection \<Rightarrow> 'p WebsocketLayer \<Rightarrow> 'p WebsocketLayer" where
  "set_src_ws fc ws l = (if fc then l\<lparr>client_ws := ws\<rparr> else l\<lparr>server_ws := ws\<rparr>)"

definition set_dst_ws :: "bool \<Rightarrow> 'p WebsocketConnection \<Rightarrow> 'p WebsocketLayer \<Rightarrow> 'p WebsocketLayer" where
  "set_dst_ws fc ws l = (if fc then l\<lparr>server_ws := ws\<rparr> else l\<lparr>client_ws := ws\<rparr>)"

text \<open>\<open>WebsocketConnection.send2\<close>.\<close>

definition send2 :: "'p env \<Rightarrow> 'p WebsocketConnection \<Rightarrow> ws_event
    \<Rightarrow> exception + command \<times> 'p WebsocketConnection" where
  "send2 E ws ev =
     (case ws_send E (proto ws) ev of
        Inl e \<Rightarrow> Inl (LibraryError e)
      | Inr (data, p) \<Rightarrow> Inr (SendData (conn ws) data, ws\<lparr>proto := p\<rparr>))"

text \<open>The loop \<open>for msg in fragmentizer(message.content): yield dst_ws.send2(msg)\<close>.\<close>

fun send_parts :: "'p env \<Rightarrow> 'p WebsocketConnection \<Rightarrow> ws_event list
    \<Rightarrow> command list \<times> 'p WebsocketConnection \<times> exception option" where
  "send_parts E ws [] = ([], ws, None)"
| "send_parts E ws (m # ms) =
     (case send2 E ws m of
        Inl e \<Rightarrow> ([], ws, Some e)
      | Inr (c, ws') \<Rightarrow>
          (case send_parts E ws' ms of (cs, ws'', r) \<Rightarrow> (c # cs, ws'', r)))"

subsection \<open>format\_close\_event\<close>

text \<open>The decimal digits of an integer, as an f-string writes it.\<close>

function str_of_nat :: "nat \<Rightarrow> str" where
  "str_of_nat n =
     (if n < 10 then [''0123456789'' ! n]
      else str_of_nat (n div 10) @ [''0123456789'' ! (n mod 10)])"
  by pat_completeness auto
termination
  by (relation "measure id") auto

declare str_of_nat.simps [simp del]

definition str_of_int :: "int \<Rightarrow> str" where
  "str_of_int i = (if i < 0 then ''-'' @ str_of_nat (nat (- i)) else str_of_nat (nat i))"

definition format_close_event :: "'p env \<Rightarrow> int \<Rightarrow> str option \<Rightarrow> str" where
  "format_close_event E code reason =
     (let ret = (case CloseReason_name E code of
                   Some name \<Rightarrow> name
                 | None \<Rightarrow> ''UNKNOWN_ERROR='' @ str_of_int code)
      in case reason of
           None \<Rightarrow> ret
         | Some r \<Rightarrow> if r \<noteq> [] then ret @ '' (reason: '' @ r @ '')'' else ret)"

subsection \<open>relay\_messages: the branches of the loop over the events\<close>

text \<open>
  A message event (lines 144 to 165). The chunk is appended to the frame buffer of the
  source; when the message is finished the buffer is joined (\<open>joined\<close> is the local
  \<open>content\<close>), the Fragmentizer built, the
  buffer cleared, the message appended to the flow and handed to the hook; what the hook
  leaves is split again and sent through the destination, unless it is killed.
\<close>

definition handle_message :: "'p env \<Rightarrow> bool \<Rightarrow> 'p WebsocketLayer \<Rightarrow> msg_data \<Rightarrow> bool
    \<Rightarrow> 'p outcome" where
  "handle_message E fc l d message_finished =
     (let is_text = (case d of Str _ \<Rightarrow> True | Bytes _ \<Rightarrow> False);
          typ = (if is_text then TEXT else BINARY);
          chunk = (case d of Str s \<Rightarrow> str_encode E s | Bytes b \<Rightarrow> b);
          src1 = (src_ws fc l)\<lparr>frame_buf := frame_buf (src_ws fc l) @ [chunk]\<rparr>;
          l1 = set_src_ws fc src1 l
      in if \<not> message_finished then ([], l1, None)
         else
           (let joined = concat (frame_buf src1)
            in case Fragmentizer_init (frame_buf src1) is_text of
                 Inl e \<Rightarrow> ([], l1, Some e)
               | Inr fragmentizer \<Rightarrow>
                   (let l2 = set_src_ws fc (src1\<lparr>frame_buf := []\<rparr>) l1;
                        message = \<lparr>mtype = typ, from_client = fc, content = joined,
                                   killed = False\<rparr>
                    in case websocket (flow l2) of
                         None \<Rightarrow> ([], l2, Some (AttributeError ''messages''))
                       | Some wsd \<Rightarrow>
                           (let f1 = (flow l2)\<lparr>websocket :=
                                       Some (wsd\<lparr>messages := messages wsd @ [message]\<rparr>)\<rparr>;
                                message' = message_hook E f1 message;
                                l3 = l2\<lparr>flow := (flow l2)\<lparr>websocket :=
                                       Some (wsd\<lparr>messages := messages wsd @ [message']\<rparr>)\<rparr>\<rparr>
                            in if \<not> killed message' then
                                 (case send_parts E (dst_ws fc l3)
                                         (Fragmentizer_call (bytes_decode E) fragmentizer
                                            (content message')) of
                                    (cs, dws, r) \<Rightarrow>
                                      (WebsocketMessageHook f1 # cs, set_dst_ws fc dws l3, r))
                               else ([WebsocketMessageHook f1], l3, None)))))"

text \<open>A ping or a pong (lines 167 to 172); \<open>name\<close> is the lowered class name.\<close>

definition handle_ping_pong :: "'p env \<Rightarrow> bool \<Rightarrow> 'p WebsocketLayer \<Rightarrow> str \<Rightarrow> bytes
    \<Rightarrow> ws_event \<Rightarrow> 'p outcome" where
  "handle_ping_pong E fc l name payload ws_event =
     (let from_str = (if fc then ''client'' else ''server'');
          log = Log (''Received WebSocket '' @ name @ '' from '' @ from_str
                     @ '' (payload: '' @ bytes_repr E payload @ '')'')
      in case send2 E (dst_ws fc l) ws_event of
           Inl e \<Rightarrow> ([log], l, Some e)
         | Inr (c, dws) \<Rightarrow> ([log, c], set_dst_ws fc dws l, None))"

text \<open>One round of the loop \<open>for ws in [self.server_ws, self.client_ws]\<close> (lines 179 to 182).\<close>

definition close_ws :: "'p env \<Rightarrow> 'p WebsocketConnection \<Rightarrow> ws_event
    \<Rightarrow> command list \<times> 'p WebsocketConnection \<times> exception option" where
  "close_ws E ws ws_event =
     (if ws_state E (proto ws) \<in> {OPEN, REMOTE_CLOSING} then
        (case send2 E ws ws_event of
           Inl e \<Rightarrow> ([], ws, Some e)
         | Inr (c, ws') \<Rightarrow> ([c, CloseConnectionCommand (conn ws')], ws', None))
      else ([CloseConnectionCommand (conn ws)], ws, None))"

text \<open>A close event (lines 173 to 188).\<close>

definition handle_close :: "'p env \<Rightarrow> bool \<Rightarrow> 'p WebsocketLayer \<Rightarrow> int \<Rightarrow> str option
    \<Rightarrow> 'p outcome" where
  "handle_close E fc l code reason =
     (case websocket (flow l) of
        None \<Rightarrow> ([], l, Some (AttributeError ''closed_by_client''))
      | Some wsd \<Rightarrow>
          (let l1 = l\<lparr>flow := (flow l)\<lparr>websocket :=
                      Some (wsd\<lparr>closed_by_client := Some fc, close_code := Some code,
                                close_reason := reason\<rparr>)\<rparr>\<rparr>
           in case close_ws E (server_ws l1) (CloseConnection code reason) of
                (cs1, sws, Some e) \<Rightarrow> (cs1, l1\<lparr>server_ws := sws\<rparr>, Some e)
              | (cs1, sws, None) \<Rightarrow>
                  (let l2 = l1\<lparr>server_ws := sws\<rparr>
                   in case close_ws E (client_ws l2) (CloseConnection code reason) of
                        (cs2, cws, Some e) \<Rightarrow> (cs1 @ cs2, l2\<lparr>client_ws := cws\<rparr>, Some e)
                      | (cs2, cws, None) \<Rightarrow>
                          (let l3 = l2\<lparr>client_ws := cws\<rparr>
                           in if code \<in> {1000, 1001, 1005} then
                                (cs1 @ cs2 @ [WebsocketEndHook (flow l3)],
                                 l3\<lparr>handle_event_attr := H_done\<rparr>, None)
                              else
                                (let l4 = l3\<lparr>flow := (flow l3)\<lparr>error :=
                                            Some (''WebSocket Error: ''
                                                  @ format_close_event E code reason)\<rparr>\<rparr>
                                 in (cs1 @ cs2 @ [WebsocketErrorHook (flow l4)],
                                     l4\<lparr>handle_event_attr := H_done\<rparr>, None))))))"

text \<open>The body of the loop \<open>for ws_event in src_ws.events()\<close> (lines 144 to 190).\<close>

definition handle_ws_event :: "'p env \<Rightarrow> bool \<Rightarrow> 'p WebsocketLayer \<Rightarrow> ws_event \<Rightarrow> 'p outcome" where
  "handle_ws_event E fc l ws_event =
     (case ws_event of
        Message d message_finished \<Rightarrow> handle_message E fc l d message_finished
      | Ping payload \<Rightarrow> handle_ping_pong E fc l ''ping'' payload ws_event
      | Pong payload \<Rightarrow> handle_ping_pong E fc l ''pong'' payload ws_event
      | CloseConnection code reason \<Rightarrow> handle_close E fc l code reason
      | OtherEvent \<Rightarrow> ([], l, Some (AssertionError ''Unexpected WebSocket event'')))"

subsection \<open>relay\_messages and done\<close>

text \<open>
  The loop over the generator \<open>src_ws.events()\<close>. The generator is the library's and
  nothing in the layer bounds the events it yields: the loop is a partial function, and
  \<open>None\<close> is a loop that never ends.
\<close>

partial_function (option) relay_loop :: "'p env \<Rightarrow> bool \<Rightarrow> 'p WebsocketLayer
    \<Rightarrow> 'p outcome option" where
  "relay_loop E fc l =
     (case ws_events E (proto (src_ws fc l)) of
        None \<Rightarrow> Some ([], l, None)
      | Some (Inl e) \<Rightarrow> Some ([], l, Some (LibraryError e))
      | Some (Inr (ws_event, p)) \<Rightarrow>
          (case handle_ws_event E fc (set_src_ws fc ((src_ws fc l)\<lparr>proto := p\<rparr>) l) ws_event of
             (cs, l', Some e) \<Rightarrow> Some (cs, l', Some e)
           | (cs, l', None) \<Rightarrow>
               Option.bind (relay_loop E fc l') (\<lambda>(cs', l'', r). Some (cs @ cs', l'', r))))"

definition relay_messages :: "'p env \<Rightarrow> 'p WebsocketLayer \<Rightarrow> event \<Rightarrow> 'p outcome option" where
  "relay_messages E l ev =
     (if \<not> expect ev then Some ([], l, Some (AssertionError ''Unexpected event type''))
      else if websocket (flow l) = None then
        Some ([], l, Some (AssertionError ''self.flow.websocket''))
      else
        (let fc = (event_connection ev = client (ctx l));
             fed = (case ev of
                      DataReceived _ data \<Rightarrow>
                        (case ws_receive_data E (proto (src_ws fc l)) (Some data) of
                           Inl e \<Rightarrow> Inl (LibraryError e) | Inr p \<Rightarrow> Inr p)
                    | ConnectionClosed _ \<Rightarrow>
                        (case ws_receive_data E (proto (src_ws fc l)) None of
                           Inl e \<Rightarrow> Inl (LibraryError e) | Inr p \<Rightarrow> Inr p)
                    | OtherConnectionEvent _ \<Rightarrow> Inl (AssertionError ''Unexpected event''))
         in case fed of
              Inl e \<Rightarrow> Some ([], l, Some e)
            | Inr p \<Rightarrow> relay_loop E fc (set_src_ws fc ((src_ws fc l)\<lparr>proto := p\<rparr>) l)))"

text \<open>The handler \<open>done\<close> (here \<open>done_handler\<close>) yields nothing.\<close>

definition done_handler :: "'p WebsocketLayer \<Rightarrow> event \<Rightarrow> 'p outcome" where
  "done_handler l ev =
     (if \<not> expect ev then ([], l, Some (AssertionError ''Unexpected event type''))
      else ([], l, None))"

text \<open>An event reaches the handler that \<open>_handle_event\<close> holds.\<close>

definition handle_event :: "'p env \<Rightarrow> 'p WebsocketLayer \<Rightarrow> event \<Rightarrow> 'p outcome option" where
  "handle_event E l ev =
     (case handle_event_attr l of
        H_relay_messages \<Rightarrow> relay_messages E l ev
      | H_done \<Rightarrow> Some (done_handler l ev))"

subsection \<open>Observations on the commands\<close>

fun is_hook :: "command \<Rightarrow> bool" where
  "is_hook (WebsocketMessageHook _) = True"
| "is_hook (WebsocketEndHook _) = True"
| "is_hook (WebsocketErrorHook _) = True"
| "is_hook _ = False"

fun is_send :: "command \<Rightarrow> bool" where
  "is_send (SendData _ _) = True"
| "is_send _ = False"

text \<open>
  The length of a part that the Fragmentizer yields, \<open>len(part.data)\<close>: characters of a
  text part, bytes of a binary part.
\<close>

fun part_length :: "ws_event \<Rightarrow> nat" where
  "part_length (Message (Str s) _) = length s"
| "part_length (Message (Bytes b) _) = length b"
| "part_length _ = 0"

subsection \<open>A sample environment\<close>

text \<open>
  A stand-in for the protocol library, to run the layer on concrete inputs. Its
  connection holds the state and a queue of events already decoded; \<open>receive_data\<close>
  refuses bytes once the connection is closed and queues an abnormal close (1006) at
  the end of the stream; \<open>send\<close> takes a close event in the states OPEN and
  REMOTE_CLOSING, any other event in the state OPEN, and returns the bare payload.
\<close>

record sample_proto =
  st :: ConnectionState
  pending :: "ws_event list"

definition sample_encode :: "str \<Rightarrow> bytes" where
  "sample_encode s = map (\<lambda>c. of_nat (of_char c)) s"

definition sample_decode :: "bytes \<Rightarrow> str" where
  "sample_decode b = map (\<lambda>x. char_of (unat x)) b"

text \<open>
  UTF-8 decoding of text whose code points are below 256: a byte below 0x80 is its own
  character, the lead bytes 0xC2 and 0xC3 with a continuation byte give the characters
  from 0x80 to 0xFF; any other byte is shown as a question mark, in place of U+FFFD.
\<close>

fun sample_utf8_decode :: "bytes \<Rightarrow> str" where
  "sample_utf8_decode [] = []"
| "sample_utf8_decode [b] = (if b < 0x80 then [char_of (unat b)] else ''?'')"
| "sample_utf8_decode (b1 # b2 # bs) =
     (if b1 < 0x80 then char_of (unat b1) # sample_utf8_decode (b2 # bs)
      else if (b1 = 0xC2 \<or> b1 = 0xC3) \<and> 0x80 \<le> b2 \<and> b2 < 0xC0
        then char_of (64 * (unat b1 - 0xC0) + (unat b2 - 0x80)) # sample_utf8_decode bs
      else CHR ''?'' # sample_utf8_decode (b2 # bs))"

text \<open>A text of 4250 times the letter e with an acute accent (U+00E9), in UTF-8: 8500 bytes.\<close>

definition sample_text :: bytes where
  "sample_text = concat (replicate 4250 [0xC3, 0xA9])"

definition sample_repr :: "bytes \<Rightarrow> str" where
  "sample_repr b = ''b<'' @ sample_decode b @ ''>''"

definition sample_payload :: "ws_event \<Rightarrow> bytes" where
  "sample_payload ev =
     (case ev of
        Message (Str s) _ \<Rightarrow> sample_encode s
      | Message (Bytes b) _ \<Rightarrow> b
      | Ping b \<Rightarrow> b
      | Pong b \<Rightarrow> b
      | CloseConnection _ _ \<Rightarrow> []
      | OtherEvent \<Rightarrow> [])"

definition sample_receive_data :: "sample_proto \<Rightarrow> bytes option \<Rightarrow> str + sample_proto" where
  "sample_receive_data p d =
     (case d of
        None \<Rightarrow> Inr (p\<lparr>st := CLOSED, pending := pending p @ [CloseConnection 1006 None]\<rparr>)
      | Some _ \<Rightarrow> if st p = CLOSED then Inl ''Connection already closed.'' else Inr p)"

definition sample_events :: "sample_proto \<Rightarrow> (str + ws_event \<times> sample_proto) option" where
  "sample_events p =
     (case pending p of
        [] \<Rightarrow> None
      | ev # evs \<Rightarrow> Some (Inr (ev, p\<lparr>pending := evs\<rparr>)))"

definition sample_send :: "sample_proto \<Rightarrow> ws_event \<Rightarrow> str + bytes \<times> sample_proto" where
  "sample_send p ev =
     (case ev of
        CloseConnection _ _ \<Rightarrow>
          (if st p = OPEN then Inr (sample_payload ev, p\<lparr>st := LOCAL_CLOSING\<rparr>)
           else if st p = REMOTE_CLOSING then Inr (sample_payload ev, p\<lparr>st := CLOSED\<rparr>)
           else Inl ''Event cannot be sent.'')
      | OtherEvent \<Rightarrow> Inl ''Event cannot be sent.''
      | _ \<Rightarrow> if st p = OPEN then Inr (sample_payload ev, p) else Inl ''Event cannot be sent.'')"

definition sample_names :: "int \<Rightarrow> str option" where
  "sample_names code =
     (if code = 1000 then Some ''NORMAL_CLOSURE''
      else if code = 1001 then Some ''GOING_AWAY''
      else if code = 1002 then Some ''PROTOCOL_ERROR''
      else if code = 1005 then Some ''NO_STATUS_RCVD''
      else if code = 1006 then Some ''ABNORMAL_CLOSURE''
      else if code = 1011 then Some ''INTERNAL_ERROR''
      else None)"

text \<open>Three hooks: one leaves the message as it is, one kills it, one empties it.\<close>

definition hook_keep :: "Flow \<Rightarrow> WebSocketMessage \<Rightarrow> WebSocketMessage" where
  "hook_keep f m = m"

definition hook_kill :: "Flow \<Rightarrow> WebSocketMessage \<Rightarrow> WebSocketMessage" where
  "hook_kill f m = m\<lparr>killed := True\<rparr>"

definition hook_empty :: "Flow \<Rightarrow> WebSocketMessage \<Rightarrow> WebSocketMessage" where
  "hook_empty f m = m\<lparr>content := []\<rparr>"

definition sample_env :: "(Flow \<Rightarrow> WebSocketMessage \<Rightarrow> WebSocketMessage) \<Rightarrow> sample_proto env" where
  "sample_env hook =
     \<lparr>ws_state = st, ws_receive_data = sample_receive_data, ws_events = sample_events,
      ws_send = sample_send, CloseReason_name = sample_names, str_encode = sample_encode,
      bytes_decode = sample_decode, bytes_repr = sample_repr, message_hook = hook\<rparr>"

text \<open>
  A layer that relays: the client's connection is 1, the server's 2; the two wsproto
  connections are in the given states, with the given events queued.
\<close>

definition sample_layer :: "ConnectionState \<Rightarrow> ws_event list \<Rightarrow> ConnectionState \<Rightarrow> ws_event list
    \<Rightarrow> sample_proto WebsocketLayer" where
  "sample_layer cst cev sst sev =
     \<lparr>flow = \<lparr>websocket = Some \<lparr>messages = [], closed_by_client = None, close_code = None,
                                close_reason = None\<rparr>,
              error = None\<rparr>,
      client_ws = \<lparr>proto = \<lparr>st = cst, pending = cev\<rparr>, conn = 1, frame_buf = []\<rparr>,
      server_ws = \<lparr>proto = \<lparr>st = sst, pending = sev\<rparr>, conn = 2, frame_buf = []\<rparr>,
      ctx = \<lparr>client = 1, server = 2\<rparr>,
      handle_event_attr = H_relay_messages\<rparr>"

section \<open>Properties of the Fragmentizer\<close>

subsection \<open>The two loops\<close>

lemma replay_loop_snd: "snd (replay_loop c off fls) = off + sum_list fls"
  by (induction fls arbitrary: off) (simp_all add: case_prod_beta)

lemma replay_loop_flags: "map snd (fst (replay_loop c off fls)) = replicate (length fls) False"
  by (induction fls arbitrary: off) (simp_all add: case_prod_beta)

lemma replay_loop_lengths:
  "off + sum_list fls \<le> length c \<Longrightarrow>
   map (\<lambda>p. length (fst p)) (fst (replay_loop c off fls)) = fls"
  by (induction fls arbitrary: off) (simp_all add: case_prod_beta slice_def)

lemma replay_loop_concat:
  "concat (map fst (fst (replay_loop c off fls))) = slice c off (off + sum_list fls)"
proof (induction fls arbitrary: off)
  case Nil
  show ?case by (simp add: slice_def)
next
  case (Cons fl fls)
  have "take fl (drop off c) @ take (sum_list fls) (drop (off + fl) c)
        = take (fl + sum_list fls) (drop off c)"
    by (simp add: take_add add.commute)
  with Cons[of "off + fl"] show ?case
    by (simp add: slice_def case_prod_beta)
qed

lemma all_False_map:
  "\<forall>p \<in> set ps. snd p = False \<Longrightarrow> ps = map (\<lambda>s. (s, False)) (map fst ps)"
  by (induction ps) (auto simp: prod_eq_iff)

lemma replicate_False_all: "map snd ps = replicate n False \<Longrightarrow> \<forall>p \<in> set ps. snd p = False"
proof -
  assume a: "map snd ps = replicate n False"
  have "set (map snd ps) \<subseteq> {False}" unfolding a by auto
  then show ?thesis by auto
qed

lemma call_of_slices:
  assumes "msg_calls F c = ps @ [(t, True)]" and "\<forall>p \<in> set ps. snd p = False"
  shows "Fragmentizer_call decode F c =
         map (\<lambda>d. msg decode F d False) (butlast (map fst ps @ [t]))
         @ [msg decode F (last (map fst ps @ [t])) True]"
proof -
  have ps: "ps = map (\<lambda>s. (s, False)) (map fst ps)"
    using assms(2) by (rule all_False_map)
  have "map (\<lambda>(d, fin). msg decode F d fin) ps = map (\<lambda>d. msg decode F d False) (map fst ps)"
    by (subst ps) (simp add: comp_def)
  then show ?thesis
    by (simp add: Fragmentizer_call_def assms(1) butlast_append)
qed

lemma dvd_step: "(k::nat) dvd (s - (off + k)) \<Longrightarrow> off + k \<le> s \<Longrightarrow> k dvd (s - off)"
proof -
  assume d: "k dvd (s - (off + k))" and le: "off + k \<le> s"
  have "s - off = (s - (off + k)) + k" using le by simp
  with d show ?thesis by simp
qed

lemma rechunk_loop_unfold_True:
  "int off < tot \<Longrightarrow> rechunk_loop c tot off =
       ((slice c off (off + FRAGMENT_SIZE), False) # fst (rechunk_loop c tot (off + FRAGMENT_SIZE)),
        snd (rechunk_loop c tot (off + FRAGMENT_SIZE)))"
  by (subst rechunk_loop.simps) (simp add: case_prod_beta)

lemma rechunk_loop_unfold_False:
  "\<not> int off < tot \<Longrightarrow> rechunk_loop c tot off = ([], off)"
  by (subst rechunk_loop.simps) simp

lemma rechunk_loop_props:
  "tot = int (length c) - int FRAGMENT_SIZE \<Longrightarrow> off < length c \<Longrightarrow>
   (\<forall>p \<in> set (fst (rechunk_loop c tot off)). snd p = False \<and> length (fst p) = FRAGMENT_SIZE) \<and>
   concat (map fst (fst (rechunk_loop c tot off))) @ drop (snd (rechunk_loop c tot off)) c = drop off c \<and>
   snd (rechunk_loop c tot off) < length c \<and>
   length c - snd (rechunk_loop c tot off) \<le> FRAGMENT_SIZE \<and>
   off \<le> snd (rechunk_loop c tot off) \<and>
   FRAGMENT_SIZE dvd (snd (rechunk_loop c tot off) - off)"
proof (induction c tot off rule: rechunk_loop.induct)
  case (1 c tot off)
  show ?case
  proof (cases "int off < tot")
    case True
    with "1.prems" have off': "off + FRAGMENT_SIZE < length c" by simp
    note IH = "1.IH"[OF True "1.prems"(1) off']
    note eq = rechunk_loop_unfold_True[OF True, of c]
    have app: "take FRAGMENT_SIZE (drop off c) @ drop (off + FRAGMENT_SIZE) c = drop off c"
      by (metis add.commute append_take_drop_id drop_drop)
    have len: "length (slice c off (off + FRAGMENT_SIZE)) = FRAGMENT_SIZE"
      using off' by (simp add: slice_def)
    have cc: "concat (map fst (fst (rechunk_loop c tot off)))
              @ drop (snd (rechunk_loop c tot off)) c = drop off c"
      unfolding eq using IH app by (simp add: slice_def)
    have dv: "FRAGMENT_SIZE dvd (snd (rechunk_loop c tot off) - off)"
      unfolding eq using IH by (simp add: dvd_step)
    show ?thesis
      using len cc dv unfolding eq using IH by simp
  next
    case False
    note eq = rechunk_loop_unfold_False[OF False, of c]
    show ?thesis unfolding eq using False "1.prems" by simp
  qed
qed

lemma tail_length:
  assumes k: "0 < (k::nat)" and dv: "k dvd off" and lt: "off < n" and le: "n - off \<le> k"
  shows "n - off = (if n mod k = 0 then k else n mod k)"
proof -
  obtain q where q: "off = k * q" using dv by (auto simp: dvd_def)
  define r where "r = n - off"
  have n: "n = k * q + r" using lt q by (simp add: r_def)
  have rpos: "0 < r" and rle: "r \<le> k" using lt le by (simp_all add: r_def)
  show ?thesis
  proof (cases "r = k")
    case True
    then have "n mod k = 0" by (simp add: n)
    with True show ?thesis by (simp add: r_def)
  next
    case False
    with rle have "r < k" by simp
    then have "n mod k = r" by (simp add: n)
    with rpos show ?thesis by (simp add: r_def)
  qed
qed

lemma rechunk_calls_gen:
  assumes ne: "c \<noteq> []" and len: "length c \<noteq> sum_list (fragment_lengths F)"
  shows "\<exists>slices. slices \<noteq> [] \<and> concat slices = c \<and>
           (\<forall>s \<in> set (butlast slices). length s = FRAGMENT_SIZE) \<and>
           length (last slices) =
             (if length c mod FRAGMENT_SIZE = 0 then FRAGMENT_SIZE else length c mod FRAGMENT_SIZE) \<and>
           Fragmentizer_call decode F c =
             map (\<lambda>d. msg decode F d False) (butlast slices) @ [msg decode F (last slices) True]"
proof -
  define tot where "tot = int (length c) - int FRAGMENT_SIZE"
  define ps where "ps = fst (rechunk_loop c tot 0)"
  define off where "off = snd (rechunk_loop c tot 0)"
  have pos: "0 < length c" using ne by simp
  note P = rechunk_loop_props[OF tot_def pos, folded ps_def off_def]
  have calls: "msg_calls F c = ps @ [(drop off c, True)]"
    using ne len
    by (simp add: msg_calls_def ps_def off_def tot_def case_prod_beta slice_from_def)
  have flags: "\<forall>p \<in> set ps. snd p = False" using P by blast
  have k: "0 < FRAGMENT_SIZE" by (simp add: FRAGMENT_SIZE_def)
  have dv: "FRAGMENT_SIZE dvd off" using P by simp
  have lt: "off < length c" using P by blast
  have le: "length c - off \<le> FRAGMENT_SIZE" using P by blast
  let ?slices = "map fst ps @ [drop off c]"
  have "concat ?slices = c" using P by simp
  moreover have "\<forall>s \<in> set (butlast ?slices). length s = FRAGMENT_SIZE"
    using P by (auto simp: butlast_append)
  moreover have "length (last ?slices) =
      (if length c mod FRAGMENT_SIZE = 0 then FRAGMENT_SIZE else length c mod FRAGMENT_SIZE)"
    using tail_length[OF k dv lt le] by simp
  moreover have "?slices \<noteq> []" by simp
  moreover note call_of_slices[OF calls flags, of decode]
  ultimately show ?thesis by blast
qed

subsection \<open>Replaying the recorded fragments\<close>

text \<open>
  Claim C1, as amended. For content that is not empty and whose length is the sum of the
  recorded fragment lengths, \<open>Fragmentizer.__call__\<close> yields one part for each recorded
  length, in order: the parts are \<open>self.msg\<close> of consecutive slices of the content whose
  lengths are the recorded lengths, every part but the last with \<open>message_finished\<close>
  false and the last with \<open>message_finished\<close> true. (A binary part carries its slice;
  a text part carries the decoding of its slice.)
\<close>

theorem Fragmentizer_replay:
  assumes ne: "c \<noteq> []" and len: "length c = sum_list (fragment_lengths F)"
  shows "\<exists>slices. map length slices = fragment_lengths F \<and> concat slices = c \<and>
           Fragmentizer_call decode F c =
             map (\<lambda>d. msg decode F d False) (butlast slices) @ [msg decode F (last slices) True]"
proof -
  define fls where "fls = fragment_lengths F"
  define ps where "ps = fst (replay_loop c 0 (butlast fls))"
  define off where "off = snd (replay_loop c 0 (butlast fls))"
  have fne: "fls \<noteq> []" using ne len by (auto simp: fls_def)
  then have split: "fls = butlast fls @ [last fls]" by simp
  have sum: "sum_list fls = sum_list (butlast fls) + last fls"
    by (subst split) simp
  have off: "off = sum_list (butlast fls)"
    by (simp add: off_def replay_loop_snd)
  have le: "0 + sum_list (butlast fls) \<le> length c"
    using len sum by (simp add: fls_def)
  have calls: "msg_calls F c = ps @ [(drop off c, True)]"
    using ne len by (simp add: msg_calls_def ps_def off_def fls_def case_prod_beta slice_from_def)
  have flags: "\<forall>p \<in> set ps. snd p = False"
    using replay_loop_flags[of c 0 "butlast fls"] unfolding ps_def by (rule replicate_False_all)
  have lens: "map length (map fst ps) = butlast fls"
    using replay_loop_lengths[OF le] by (simp add: ps_def comp_def)
  have lastlen: "length (drop off c) = last fls"
    using len sum by (simp add: off fls_def)
  have cc: "concat (map fst ps) = take off c"
    using replay_loop_concat[of c 0 "butlast fls"] by (simp add: ps_def off slice_def)
  let ?slices = "map fst ps @ [drop off c]"
  have "map length ?slices = fragment_lengths F"
    using lens lastlen split by (simp add: fls_def)
  moreover have "concat ?slices = c" by (simp add: cc)
  moreover note call_of_slices[OF calls flags, of decode]
  ultimately show ?thesis by blast
qed

theorem Fragmentizer_replay_witness:
  "[104, 101, 108, 108, 111 :: byte] \<noteq> [] \<and>
   length [104, 101, 108, 108, 111 :: byte]
     = sum_list (fragment_lengths \<lparr>fragment_lengths = [2, 2, 1], is_text = True\<rparr>) \<and>
   (\<exists>slices. map length slices = [2, 2, 1] \<and> concat slices = [104, 101, 108, 108, 111 :: byte] \<and>
      Fragmentizer_call sample_decode \<lparr>fragment_lengths = [2, 2, 1], is_text = True\<rparr>
          [104, 101, 108, 108, 111] =
        map (\<lambda>d. msg sample_decode \<lparr>fragment_lengths = [2, 2, 1], is_text = True\<rparr> d False)
            (butlast slices)
        @ [msg sample_decode \<lparr>fragment_lengths = [2, 2, 1], is_text = True\<rparr> (last slices) True])"
proof -
  have h1: "[104, 101, 108, 108, 111 :: byte] \<noteq> []" by simp
  have h2: "length [104, 101, 108, 108, 111 :: byte]
            = sum_list (fragment_lengths \<lparr>fragment_lengths = [2, 2, 1], is_text = True\<rparr>)"
    by simp
  show ?thesis
    using h1 h2 Fragmentizer_replay[OF h1 h2, of sample_decode] by simp
qed

text \<open>
  Claim C1 as stated fails on empty content: a message of one empty fragment has the
  profile \<open>[0]\<close>, the length of its content is the sum of the profile, and no part is
  yielded, where the profile has one fragment.
\<close>

theorem Fragmentizer_replay_empty_counterexample:
  "Fragmentizer_init [[]] False = Inr \<lparr>fragment_lengths = [0], is_text = False\<rparr> \<and>
   length ([] :: bytes) = sum_list (fragment_lengths \<lparr>fragment_lengths = [0], is_text = False\<rparr>) \<and>
   Fragmentizer_call sample_decode \<lparr>fragment_lengths = [0], is_text = False\<rparr> [] = []"
  by (simp add: Fragmentizer_init_def Fragmentizer_call_def msg_calls_def)

subsection \<open>Cutting edited content into parts of 4000 bytes\<close>

text \<open>
  Claim C2, as amended. For content that is not empty and whose length differs from the
  sum of the recorded fragment lengths, \<open>Fragmentizer.__call__\<close> cuts the content into
  consecutive slices, every slice but the last of 4000 bytes and the last of
  \<open>len(content) mod 4000\<close> bytes, or of 4000 when that is zero, and yields one part for
  each slice, in order, the last part alone with \<open>message_finished\<close> true. A binary
  part carries its slice, so the parts of a binary message have these lengths; a text
  part carries the decoding of its slice.
\<close>

theorem Fragmentizer_rechunk:
  assumes "c \<noteq> []" and "length c \<noteq> sum_list (fragment_lengths F)"
  shows "\<exists>slices. slices \<noteq> [] \<and> concat slices = c \<and>
           (\<forall>s \<in> set (butlast slices). length s = 4000) \<and>
           length (last slices) = (if length c mod 4000 = 0 then 4000 else length c mod 4000) \<and>
           Fragmentizer_call decode F c =
             map (\<lambda>d. Message (if is_text F then Str (decode d) else Bytes d) False)
                 (butlast slices)
             @ [Message (if is_text F then Str (decode (last slices)) else Bytes (last slices))
                  True] \<and>
           (\<not> is_text F \<longrightarrow>
              map part_length (Fragmentizer_call decode F c) = map length slices)"
proof -
  from rechunk_calls_gen[OF assms, of decode]
  obtain slices where ne: "slices \<noteq> []" and cc: "concat slices = c"
    and len: "\<forall>s \<in> set (butlast slices). length s = FRAGMENT_SIZE"
    and lastlen: "length (last slices) =
       (if length c mod FRAGMENT_SIZE = 0 then FRAGMENT_SIZE else length c mod FRAGMENT_SIZE)"
    and call: "Fragmentizer_call decode F c =
       map (\<lambda>d. msg decode F d False) (butlast slices) @ [msg decode F (last slices) True]"
    by blast
  have shape: "Fragmentizer_call decode F c =
       map (\<lambda>d. Message (if is_text F then Str (decode d) else Bytes d) False) (butlast slices)
       @ [Message (if is_text F then Str (decode (last slices)) else Bytes (last slices)) True]"
    unfolding call by (simp add: msg_def)
  have split: "map length slices = map length (butlast slices) @ [length (last slices)]"
    using ne by (metis append_butlast_last_id list.simps(8,9) map_append)
  have bin: "\<not> is_text F \<longrightarrow>
       map part_length (Fragmentizer_call decode F c) = map length slices"
    unfolding shape split by (simp add: comp_def)
  from ne cc len lastlen shape bin show ?thesis
    unfolding FRAGMENT_SIZE_def by blast
qed

theorem Fragmentizer_rechunk_witness:
  "\<exists>slices. slices \<noteq> [] \<and> concat slices = replicate 8500 (0::byte) \<and>
      (\<forall>s \<in> set (butlast slices). length s = 4000) \<and>
      length (last slices) = 500 \<and>
      Fragmentizer_call sample_decode \<lparr>fragment_lengths = [1000], is_text = False\<rparr>
          (replicate 8500 0) =
        map (\<lambda>d. Message (Bytes d) False) (butlast slices) @ [Message (Bytes (last slices)) True] \<and>
      map part_length (Fragmentizer_call sample_decode \<lparr>fragment_lengths = [1000], is_text = False\<rparr>
          (replicate 8500 0)) = map length slices"
proof -
  have h1: "replicate 8500 (0::byte) \<noteq> []" by simp
  have h2: "length (replicate 8500 (0::byte))
            \<noteq> sum_list (fragment_lengths \<lparr>fragment_lengths = [1000], is_text = False\<rparr>)"
    by simp
  show ?thesis
    using Fragmentizer_rechunk[OF h1 h2, of sample_decode] by simp
qed

text \<open>The parts of the sample text: 2000, 2000 and 250 letters.\<close>

lemma decode_e_acute: "sample_utf8_decode (0xC3 # 0xA9 # bs) = CHR 0xE9 # sample_utf8_decode bs"
proof -
  have c: "char_of (233 :: nat) = CHR 0xE9"
    by code_simp
  show ?thesis by (simp add: c)
qed

lemma decode_e_acutes:
  "sample_utf8_decode (concat (replicate n [0xC3, 0xA9])) = replicate n (CHR 0xE9)"
  by (induction n) (simp_all add: decode_e_acute del: sample_utf8_decode.simps(2,3))

lemma take_pairs:
  "take (2 * m) (concat (replicate (m + n) [a, b])) = concat (replicate m [a, b])"
  by (simp add: replicate_add length_concat sum_list_replicate)

lemma drop_pairs:
  "drop (2 * m) (concat (replicate (m + n) [a, b])) = concat (replicate n [a, b])"
  by (simp add: replicate_add length_concat sum_list_replicate)

lemma sample_text_length: "length sample_text = 8500"
  by (simp add: sample_text_def length_concat sum_list_replicate)

lemma sample_text_calls:
  "msg_calls \<lparr>fragment_lengths = [1000], is_text = True\<rparr> sample_text =
     [(concat (replicate 2000 [0xC3, 0xA9]), False),
      (concat (replicate 2000 [0xC3, 0xA9]), False),
      (concat (replicate 250 [0xC3, 0xA9]), True)]"
proof -
  have ne: "sample_text \<noteq> []"
    using sample_text_length by auto
  have d1: "drop 4000 sample_text = concat (replicate 2250 [0xC3, 0xA9])"
    using drop_pairs[of 2000 2250 "0xC3 :: byte" "0xA9"] by (simp add: sample_text_def)
  have t1: "take 4000 sample_text = concat (replicate 2000 [0xC3, 0xA9])"
    using take_pairs[of 2000 2250 "0xC3 :: byte" "0xA9"] by (simp add: sample_text_def)
  have d2: "drop 8000 sample_text = concat (replicate 250 [0xC3, 0xA9])"
    using drop_pairs[of 4000 250 "0xC3 :: byte" "0xA9"] by (simp add: sample_text_def)
  have t2: "take 4000 (concat (replicate 2250 [0xC3 :: byte, 0xA9]))
            = concat (replicate 2000 [0xC3, 0xA9])"
    using take_pairs[of 2000 250 "0xC3 :: byte" "0xA9"] by simp
  have loop: "rechunk_loop sample_text 4500 0 =
      ([(concat (replicate 2000 [0xC3, 0xA9]), False),
        (concat (replicate 2000 [0xC3, 0xA9]), False)], 8000)"
    apply (subst rechunk_loop.simps)
    apply (simp add: FRAGMENT_SIZE_def slice_def t1)
    apply (subst rechunk_loop.simps)
    apply (simp add: FRAGMENT_SIZE_def slice_def d1 t2)
    apply (subst rechunk_loop.simps)
    apply simp
    done
  show ?thesis
    by (simp add: msg_calls_def ne sample_text_length FRAGMENT_SIZE_def loop slice_from_def d2)
qed

text \<open>
  Claim C2 as stated fails for a text message: the sample text has 8500 bytes, the
  profile of the message it replaces sums to 1000, and the parts yielded are texts of
  2000, 2000 and 250 characters, the decodings of slices of 4000, 4000 and 500 bytes.
\<close>

theorem Fragmentizer_rechunk_text_counterexample:
  "sample_text \<noteq> [] \<and>
   length sample_text = 8500 \<and>
   sum_list (fragment_lengths \<lparr>fragment_lengths = [1000], is_text = True\<rparr>) = 1000 \<and>
   map part_length
     (Fragmentizer_call sample_utf8_decode \<lparr>fragment_lengths = [1000], is_text = True\<rparr> sample_text)
     = [2000, 2000, 250]"
proof -
  have ne: "sample_text \<noteq> []"
    using sample_text_length by auto
  show ?thesis
    by (simp add: ne sample_text_length Fragmentizer_call_def sample_text_calls msg_def
          decode_e_acutes)
qed

section \<open>Properties of the relay\<close>

subsection \<open>Auxiliary facts\<close>

lemma set_src_ws_fields [simp]:
  "flow (set_src_ws fc ws l) = flow l"
  "ctx (set_src_ws fc ws l) = ctx l"
  "handle_event_attr (set_src_ws fc ws l) = handle_event_attr l"
  "src_ws fc (set_src_ws fc ws l) = ws"
  "dst_ws fc (set_src_ws fc ws l) = dst_ws fc l"
  by (simp_all add: set_src_ws_def src_ws_def dst_ws_def)

lemma set_dst_ws_fields [simp]:
  "flow (set_dst_ws fc ws l) = flow l"
  "ctx (set_dst_ws fc ws l) = ctx l"
  "handle_event_attr (set_dst_ws fc ws l) = handle_event_attr l"
  "dst_ws fc (set_dst_ws fc ws l) = ws"
  "src_ws fc (set_dst_ws fc ws l) = src_ws fc l"
  by (simp_all add: set_dst_ws_def src_ws_def dst_ws_def)

lemma flow_update_fields [simp]:
  "src_ws fc (l\<lparr>flow := f\<rparr>) = src_ws fc l"
  "dst_ws fc (l\<lparr>flow := f\<rparr>) = dst_ws fc l"
  by (simp_all add: src_ws_def dst_ws_def)

lemma send_parts_no_send: "send_parts E ws [] = ([], ws, None)"
  by simp

lemma send_parts_exception:
  "snd (snd (send_parts E ws ms)) \<noteq> Some (AssertionError s)"
proof (induction ms arbitrary: ws)
  case Nil
  show ?case by simp
next
  case (Cons m ms)
  show ?case
  proof (cases "ws_send E (proto ws) m")
    case (Inl e)
    then show ?thesis by (simp add: send2_def)
  next
    case (Inr r)
    then show ?thesis
      using Cons[of "ws\<lparr>proto := snd r\<rparr>"]
      by (cases r) (simp add: send2_def case_prod_beta)
  qed
qed

lemma close_ws_result:
  assumes "ws_state E (proto ws) \<in> {OPEN, REMOTE_CLOSING} \<longrightarrow> ws_send E (proto ws) ev = Inr (d, p)"
  shows "close_ws E ws ev =
     ((if ws_state E (proto ws) \<in> {OPEN, REMOTE_CLOSING} then [SendData (conn ws) d] else [])
        @ [CloseConnectionCommand (conn ws)],
      (if ws_state E (proto ws) \<in> {OPEN, REMOTE_CLOSING} then ws\<lparr>proto := p\<rparr> else ws),
      None)"
  using assms by (simp add: close_ws_def send2_def)

lemma handle_close_result:
  assumes ws: "websocket (flow l) = Some wsd"
    and s: "ws_state E (proto (server_ws l)) \<in> {OPEN, REMOTE_CLOSING}
            \<longrightarrow> ws_send E (proto (server_ws l)) (CloseConnection code reason) = Inr (ds, ps)"
    and c: "ws_state E (proto (client_ws l)) \<in> {OPEN, REMOTE_CLOSING}
            \<longrightarrow> ws_send E (proto (client_ws l)) (CloseConnection code reason) = Inr (dc, pc)"
  shows "handle_close E fc l code reason =
     ((if ws_state E (proto (server_ws l)) \<in> {OPEN, REMOTE_CLOSING}
         then [SendData (conn (server_ws l)) ds] else [])
      @ [CloseConnectionCommand (conn (server_ws l))]
      @ (if ws_state E (proto (client_ws l)) \<in> {OPEN, REMOTE_CLOSING}
         then [SendData (conn (client_ws l)) dc] else [])
      @ [CloseConnectionCommand (conn (client_ws l))]
      @ [if code \<in> {1000, 1001, 1005}
         then WebsocketEndHook ((flow l)\<lparr>websocket :=
                Some (wsd\<lparr>closed_by_client := Some fc, close_code := Some code,
                          close_reason := reason\<rparr>)\<rparr>)
         else WebsocketErrorHook ((flow l)\<lparr>websocket :=
                Some (wsd\<lparr>closed_by_client := Some fc, close_code := Some code,
                          close_reason := reason\<rparr>),
                error := Some (''WebSocket Error: '' @ format_close_event E code reason)\<rparr>)],
      l\<lparr>flow := (if code \<in> {1000, 1001, 1005}
                 then (flow l)\<lparr>websocket :=
                        Some (wsd\<lparr>closed_by_client := Some fc, close_code := Some code,
                                  close_reason := reason\<rparr>)\<rparr>
                 else (flow l)\<lparr>websocket :=
                        Some (wsd\<lparr>closed_by_client := Some fc, close_code := Some code,
                                  close_reason := reason\<rparr>),
                        error := Some (''WebSocket Error: '' @ format_close_event E code reason)\<rparr>),
        server_ws := (if ws_state E (proto (server_ws l)) \<in> {OPEN, REMOTE_CLOSING}
                      then (server_ws l)\<lparr>proto := ps\<rparr> else server_ws l),
        client_ws := (if ws_state E (proto (client_ws l)) \<in> {OPEN, REMOTE_CLOSING}
                      then (client_ws l)\<lparr>proto := pc\<rparr> else client_ws l),
        handle_event_attr := H_done\<rparr>,
      None)"
proof -
  note S = close_ws_result[OF s]
  note C = close_ws_result[OF c]
  show ?thesis
    unfolding handle_close_def by (simp add: ws S C Let_def)
qed



lemma not_isl_Inr: "\<not> isl x \<Longrightarrow> x = Inr (fst (projr x), snd (projr x))"
  by (cases x) simp_all

lemmas sample_defs =
  sample_env_def sample_layer_def sample_send_def sample_payload_def sample_events_def
  sample_receive_data_def sample_names_def sample_repr_def sample_decode_def sample_encode_def
  hook_keep_def hook_kill_def hook_empty_def

subsection \<open>Close events\<close>

text \<open>
  Claim C3. When a close event is handled in a flow that has its WebSocket data, and
  the library encodes the close event for each wsproto connection that is OPEN or
  REMOTE_CLOSING: for a code among 1000, 1001 and 1005 the only hook yielded is
  \<open>WebsocketEndHook\<close>; for any other code the only hook yielded is \<open>WebsocketErrorHook\<close>
  and the error of the flow is \<open>"WebSocket Error: "\<close> followed by the name of the close
  reason, or by \<open>UNKNOWN_ERROR=\<close> and the decimal code when the code is no member of
  \<open>CloseReason\<close>, followed by \<open>" (reason: ...)"\<close> when the event has a reason that is not
  empty.
\<close>

theorem close_classification:
  fixes E :: "'p env" and fc :: bool
  assumes ws: "websocket (flow l) = Some wsd"
    and s: "ws_state E (proto (server_ws l)) \<in> {OPEN, REMOTE_CLOSING}
            \<longrightarrow> \<not> isl (ws_send E (proto (server_ws l)) (CloseConnection code reason))"
    and c: "ws_state E (proto (client_ws l)) \<in> {OPEN, REMOTE_CLOSING}
            \<longrightarrow> \<not> isl (ws_send E (proto (client_ws l)) (CloseConnection code reason))"
  defines "out \<equiv> handle_ws_event E fc l (CloseConnection code reason)"
  shows "(code \<in> {1000, 1001, 1005} \<longrightarrow>
            filter is_hook (fst out) = [WebsocketEndHook (flow (fst (snd out)))]) \<and>
         (code \<notin> {1000, 1001, 1005} \<longrightarrow>
            filter is_hook (fst out) = [WebsocketErrorHook (flow (fst (snd out)))] \<and>
            error (flow (fst (snd out))) =
              Some (''WebSocket Error: ''
                    @ (case CloseReason_name E code of
                         Some name \<Rightarrow> name
                       | None \<Rightarrow> ''UNKNOWN_ERROR='' @ str_of_int code)
                    @ (case reason of
                         None \<Rightarrow> []
                       | Some t \<Rightarrow> if t = [] then [] else '' (reason: '' @ t @ '')'')))"
proof -
  have s': "ws_state E (proto (server_ws l)) \<in> {OPEN, REMOTE_CLOSING}
            \<longrightarrow> ws_send E (proto (server_ws l)) (CloseConnection code reason)
                = Inr (fst (projr (ws_send E (proto (server_ws l)) (CloseConnection code reason))),
                       snd (projr (ws_send E (proto (server_ws l)) (CloseConnection code reason))))"
    using s not_isl_Inr by blast
  have c': "ws_state E (proto (client_ws l)) \<in> {OPEN, REMOTE_CLOSING}
            \<longrightarrow> ws_send E (proto (client_ws l)) (CloseConnection code reason)
                = Inr (fst (projr (ws_send E (proto (client_ws l)) (CloseConnection code reason))),
                       snd (projr (ws_send E (proto (client_ws l)) (CloseConnection code reason))))"
    using c not_isl_Inr by blast
  have fmt: "format_close_event E code reason =
       (case CloseReason_name E code of
          Some name \<Rightarrow> name
        | None \<Rightarrow> ''UNKNOWN_ERROR='' @ str_of_int code)
       @ (case reason of
            None \<Rightarrow> []
          | Some t \<Rightarrow> if t = [] then [] else '' (reason: '' @ t @ '')'')"
    by (simp add: format_close_event_def Let_def split: option.splits)
  have out: "out = handle_close E fc l code reason"
    by (simp add: out_def handle_ws_event_def)
  show ?thesis
    unfolding out handle_close_result[OF ws s' c', of fc] fmt[symmetric]
    by simp
qed

theorem close_classification_witness:
  "filter is_hook (fst (handle_ws_event (sample_env hook_keep) True
       (sample_layer REMOTE_CLOSING [] OPEN []) (CloseConnection 4000 (Some ''bye''))))
     = [WebsocketErrorHook (flow (fst (snd (handle_ws_event (sample_env hook_keep) True
          (sample_layer REMOTE_CLOSING [] OPEN []) (CloseConnection 4000 (Some ''bye''))))))] \<and>
   error (flow (fst (snd (handle_ws_event (sample_env hook_keep) True
       (sample_layer REMOTE_CLOSING [] OPEN []) (CloseConnection 4000 (Some ''bye''))))))
     = Some ''WebSocket Error: UNKNOWN_ERROR=4000 (reason: bye)''"
proof -
  have h1: "websocket (flow (sample_layer REMOTE_CLOSING [] OPEN []))
            = Some \<lparr>messages = [], closed_by_client = None, close_code = None,
                    close_reason = None\<rparr>"
    by (simp add: sample_layer_def)
  have h2: "ws_state (sample_env hook_keep) (proto (server_ws (sample_layer REMOTE_CLOSING [] OPEN [])))
              \<in> {OPEN, REMOTE_CLOSING}
            \<longrightarrow> \<not> isl (ws_send (sample_env hook_keep)
                        (proto (server_ws (sample_layer REMOTE_CLOSING [] OPEN [])))
                        (CloseConnection 4000 (Some ''bye'')))"
    by (simp add: sample_defs)
  have h3: "ws_state (sample_env hook_keep) (proto (client_ws (sample_layer REMOTE_CLOSING [] OPEN [])))
              \<in> {OPEN, REMOTE_CLOSING}
            \<longrightarrow> \<not> isl (ws_send (sample_env hook_keep)
                        (proto (client_ws (sample_layer REMOTE_CLOSING [] OPEN [])))
                        (CloseConnection 4000 (Some ''bye'')))"
    by (simp add: sample_defs)
  have n: "CloseReason_name (sample_env hook_keep) 4000 = None"
    by (simp add: sample_env_def sample_names_def)
  have d: "str_of_int 4000 = ''4000''"
    by (simp add: str_of_int_def str_of_nat.simps)
  show ?thesis
    using close_classification[OF h1 h2 h3, of True] by (simp add: n d)
qed

text \<open>
  Claim C5, as amended. When a close event is handled, the wsproto connection of the
  server is processed first and that of the client second, whichever side sent the close:
  for each, in that order, the close event is encoded and sent when its state is OPEN or
  REMOTE_CLOSING, and a \<open>CloseConnection\<close> command for its transport connection follows
  in every case; one hook ends the commands.
\<close>

theorem close_order:
  fixes E :: "'p env"
  assumes ws: "websocket (flow l) = Some wsd"
    and s: "ws_state E (proto (server_ws l)) \<in> {OPEN, REMOTE_CLOSING}
            \<longrightarrow> ws_send E (proto (server_ws l)) (CloseConnection code reason) = Inr (ds, ps)"
    and c: "ws_state E (proto (client_ws l)) \<in> {OPEN, REMOTE_CLOSING}
            \<longrightarrow> ws_send E (proto (client_ws l)) (CloseConnection code reason) = Inr (dc, pc)"
  shows "\<exists>hook. is_hook hook \<and>
           fst (handle_ws_event E fc l (CloseConnection code reason)) =
             (if ws_state E (proto (server_ws l)) \<in> {OPEN, REMOTE_CLOSING}
              then [SendData (conn (server_ws l)) ds] else [])
             @ [CloseConnectionCommand (conn (server_ws l))]
             @ (if ws_state E (proto (client_ws l)) \<in> {OPEN, REMOTE_CLOSING}
                then [SendData (conn (client_ws l)) dc] else [])
             @ [CloseConnectionCommand (conn (client_ws l))]
             @ [hook]"
proof -
  have out: "handle_ws_event E fc l (CloseConnection code reason) = handle_close E fc l code reason"
    by (simp add: handle_ws_event_def)
  show ?thesis
    unfolding out handle_close_result[OF ws s c, of fc]
    by (cases "code \<in> {1000, 1001, 1005}") auto
qed

theorem close_order_witness:
  "\<exists>hook. is_hook hook \<and>
     fst (handle_ws_event (sample_env hook_keep) True (sample_layer REMOTE_CLOSING [] CLOSED [])
            (CloseConnection 1000 None))
       = [CloseConnectionCommand 2, SendData 1 [], CloseConnectionCommand 1, hook]"
proof -
  have h1: "websocket (flow (sample_layer REMOTE_CLOSING [] CLOSED []))
            = Some \<lparr>messages = [], closed_by_client = None, close_code = None,
                    close_reason = None\<rparr>"
    by (simp add: sample_layer_def)
  have h2: "ws_state (sample_env hook_keep) (proto (server_ws (sample_layer REMOTE_CLOSING [] CLOSED [])))
              \<in> {OPEN, REMOTE_CLOSING}
            \<longrightarrow> ws_send (sample_env hook_keep)
                    (proto (server_ws (sample_layer REMOTE_CLOSING [] CLOSED [])))
                    (CloseConnection 1000 None) = Inr ([], \<lparr>st = CLOSED, pending = []\<rparr>)"
    by (simp add: sample_defs)
  have h3: "ws_state (sample_env hook_keep) (proto (client_ws (sample_layer REMOTE_CLOSING [] CLOSED [])))
              \<in> {OPEN, REMOTE_CLOSING}
            \<longrightarrow> ws_send (sample_env hook_keep)
                    (proto (client_ws (sample_layer REMOTE_CLOSING [] CLOSED [])))
                    (CloseConnection 1000 None) = Inr ([], \<lparr>st = CLOSED, pending = []\<rparr>)"
    by (simp add: sample_defs)
  show ?thesis
    using close_order[OF h1 h2 h3, of True] by (simp add: sample_defs)
qed

text \<open>
  Claim C5 as stated fails when the server sends the close: the source of the event is
  then the server's connection (2), the destination the client's (1), and the first
  connection processed is the server's, the initiator's own.
\<close>

theorem close_order_counterexample:
  "conn (src_ws False (sample_layer OPEN [] REMOTE_CLOSING [])) = 2 \<and>
   conn (dst_ws False (sample_layer OPEN [] REMOTE_CLOSING [])) = 1 \<and>
   butlast (fst (handle_ws_event (sample_env hook_keep) False
                   (sample_layer OPEN [] REMOTE_CLOSING []) (CloseConnection 1000 None)))
     = [SendData 2 [], CloseConnectionCommand 2, SendData 1 [], CloseConnectionCommand 1]"
  by (simp add: handle_ws_event_def handle_close_def close_ws_def send2_def src_ws_def
        dst_ws_def sample_defs)

text \<open>
  Claim C7. Under the conditions of C3, a close event from either side yields a
  \<open>CloseConnection\<close> command for the client's transport connection and one for the
  server's, and leaves \<open>done\<close> as the handler; from then on every \<open>DataReceived\<close> and
  every \<open>ConnectionClosed\<close> event yields no command and leaves the layer as it is.
\<close>

theorem close_closes_both_then_drains:
  fixes E :: "'p env" and fc :: bool
  assumes ws: "websocket (flow l) = Some wsd"
    and s: "ws_state E (proto (server_ws l)) \<in> {OPEN, REMOTE_CLOSING}
            \<longrightarrow> \<not> isl (ws_send E (proto (server_ws l)) (CloseConnection code reason))"
    and c: "ws_state E (proto (client_ws l)) \<in> {OPEN, REMOTE_CLOSING}
            \<longrightarrow> \<not> isl (ws_send E (proto (client_ws l)) (CloseConnection code reason))"
  defines "out \<equiv> handle_ws_event E fc l (CloseConnection code reason)"
  shows "CloseConnectionCommand (conn (client_ws l)) \<in> set (fst out) \<and>
         CloseConnectionCommand (conn (server_ws l)) \<in> set (fst out) \<and>
         snd (snd out) = None \<and>
         handle_event_attr (fst (snd out)) = H_done \<and>
         (\<forall>c data. handle_event E (fst (snd out)) (DataReceived c data)
                     = Some ([], fst (snd out), None)) \<and>
         (\<forall>c. handle_event E (fst (snd out)) (ConnectionClosed c)
                     = Some ([], fst (snd out), None))"
proof -
  have s': "ws_state E (proto (server_ws l)) \<in> {OPEN, REMOTE_CLOSING}
            \<longrightarrow> ws_send E (proto (server_ws l)) (CloseConnection code reason)
                = Inr (fst (projr (ws_send E (proto (server_ws l)) (CloseConnection code reason))),
                       snd (projr (ws_send E (proto (server_ws l)) (CloseConnection code reason))))"
    using s not_isl_Inr by blast
  have c': "ws_state E (proto (client_ws l)) \<in> {OPEN, REMOTE_CLOSING}
            \<longrightarrow> ws_send E (proto (client_ws l)) (CloseConnection code reason)
                = Inr (fst (projr (ws_send E (proto (client_ws l)) (CloseConnection code reason))),
                       snd (projr (ws_send E (proto (client_ws l)) (CloseConnection code reason))))"
    using c not_isl_Inr by blast
  have out: "out = handle_close E fc l code reason"
    by (simp add: out_def handle_ws_event_def)
  show ?thesis
    unfolding out handle_close_result[OF ws s' c', of fc]
    by (simp add: handle_event_def done_handler_def expect_def)
qed

theorem close_closes_both_then_drains_witness:
  "CloseConnectionCommand 1 \<in> set (fst (handle_ws_event (sample_env hook_keep) False
       (sample_layer OPEN [] CLOSED []) (CloseConnection 1006 None))) \<and>
   CloseConnectionCommand 2 \<in> set (fst (handle_ws_event (sample_env hook_keep) False
       (sample_layer OPEN [] CLOSED []) (CloseConnection 1006 None))) \<and>
   handle_event (sample_env hook_keep)
       (fst (snd (handle_ws_event (sample_env hook_keep) False
          (sample_layer OPEN [] CLOSED []) (CloseConnection 1006 None))))
       (DataReceived 1 [1, 2, 3])
     = Some ([], fst (snd (handle_ws_event (sample_env hook_keep) False
          (sample_layer OPEN [] CLOSED []) (CloseConnection 1006 None))), None)"
proof -
  have h1: "websocket (flow (sample_layer OPEN [] CLOSED []))
            = Some \<lparr>messages = [], closed_by_client = None, close_code = None,
                    close_reason = None\<rparr>"
    by (simp add: sample_layer_def)
  have h2: "ws_state (sample_env hook_keep) (proto (server_ws (sample_layer OPEN [] CLOSED [])))
              \<in> {OPEN, REMOTE_CLOSING}
            \<longrightarrow> \<not> isl (ws_send (sample_env hook_keep)
                        (proto (server_ws (sample_layer OPEN [] CLOSED [])))
                        (CloseConnection 1006 None))"
    by (simp add: sample_defs)
  have h3: "ws_state (sample_env hook_keep) (proto (client_ws (sample_layer OPEN [] CLOSED [])))
              \<in> {OPEN, REMOTE_CLOSING}
            \<longrightarrow> \<not> isl (ws_send (sample_env hook_keep)
                        (proto (client_ws (sample_layer OPEN [] CLOSED [])))
                        (CloseConnection 1006 None))"
    by (simp add: sample_defs)
  have c1: "conn (client_ws (sample_layer OPEN [] CLOSED [])) = 1"
    and c2: "conn (server_ws (sample_layer OPEN [] CLOSED [])) = 2"
    by (simp_all add: sample_layer_def)
  show ?thesis
    using close_closes_both_then_drains[OF h1 h2 h3, of False] unfolding c1 c2 by blast
qed

subsection \<open>Pings and pongs\<close>

text \<open>
  Claim C8. For a ping or a pong that the destination's wsproto connection encodes, the
  layer yields one \<open>Log\<close> command naming the kind of frame, the side it came from and
  the payload, then one \<open>SendData\<close> command for the destination's transport connection
  with the bytes the destination's wsproto connection returns for the same event; the
  flow (and with it the message sequence), both frame buffers and the handler are left
  as they were.
\<close>

theorem ping_pong_forwarded:
  fixes E :: "'p env"
  assumes ev: "ev = Ping payload \<or> ev = Pong payload"
    and sent: "ws_send E (proto (dst_ws fc l)) ev = Inr (data, p)"
  defines "out \<equiv> handle_ws_event E fc l ev"
  shows "fst out =
           [Log (''Received WebSocket '' @ (if ev = Ping payload then ''ping'' else ''pong'')
                 @ '' from '' @ (if fc then ''client'' else ''server'')
                 @ '' (payload: '' @ bytes_repr E payload @ '')''),
            SendData (conn (dst_ws fc l)) data] \<and>
         snd (snd out) = None \<and>
         flow (fst (snd out)) = flow l \<and>
         frame_buf (client_ws (fst (snd out))) = frame_buf (client_ws l) \<and>
         frame_buf (server_ws (fst (snd out))) = frame_buf (server_ws l) \<and>
         handle_event_attr (fst (snd out)) = handle_event_attr l"
  using ev sent
  by (auto simp: out_def handle_ws_event_def handle_ping_pong_def send2_def Let_def
                 set_dst_ws_def dst_ws_def)

theorem ping_pong_forwarded_witness:
  "fst (handle_ws_event (sample_env hook_keep) True (sample_layer OPEN [] OPEN []) (Ping [104, 105]))
     = [Log ''Received WebSocket ping from client (payload: b<hi>)'', SendData 2 [104, 105]]"
proof -
  have h1: "Ping [104, 105] = Ping [104, 105] \<or> Ping [104, 105] = Pong [104, 105]" by simp
  have h2: "ws_send (sample_env hook_keep) (proto (dst_ws True (sample_layer OPEN [] OPEN [])))
              (Ping [104, 105]) = Inr ([104, 105], \<lparr>st = OPEN, pending = []\<rparr>)"
    by (simp add: dst_ws_def sample_defs)
  have r: "bytes_repr (sample_env hook_keep) [104, 105] = ''b<hi>''"
    unfolding sample_env_def by code_simp
  have c: "conn (dst_ws True (sample_layer OPEN [] OPEN [])) = 2"
    by (simp add: dst_ws_def sample_layer_def)
  show ?thesis
    using ping_pong_forwarded[OF h1 h2] by (simp add: r c)
qed

subsection \<open>Completed messages\<close>

text \<open>
  The branch of a finished message in a flow that has its WebSocket data, written out:
  \<open>m\<close> is the message built, \<open>f1\<close> the flow handed to the hook, \<open>m'\<close> what the hook
  leaves of the message.
\<close>

lemma handle_message_finished:
  fixes E :: "'p env" and d :: msg_data and fc :: bool
  assumes ws: "websocket (flow l) = Some wsd"
  defines "chunk \<equiv> (case d of Str s \<Rightarrow> str_encode E s | Bytes b \<Rightarrow> b)"
  defines "t \<equiv> (case d of Str _ \<Rightarrow> True | Bytes _ \<Rightarrow> False)"
  defines "m \<equiv> \<lparr>mtype = (if t then TEXT else BINARY), from_client = fc,
                  content = concat (frame_buf (src_ws fc l) @ [chunk]), killed = False\<rparr>"
  defines "f1 \<equiv> (flow l)\<lparr>websocket := Some (wsd\<lparr>messages := messages wsd @ [m]\<rparr>)\<rparr>"
  defines "m' \<equiv> message_hook E f1 m"
  defines "l3 \<equiv> (set_src_ws fc ((src_ws fc l)\<lparr>frame_buf := []\<rparr>) l)
                   \<lparr>flow := (flow l)\<lparr>websocket := Some (wsd\<lparr>messages := messages wsd @ [m']\<rparr>)\<rparr>\<rparr>"
  defines "parts \<equiv> send_parts E (dst_ws fc l3)
                      (Fragmentizer_call (bytes_decode E)
                         \<lparr>fragment_lengths = map length (frame_buf (src_ws fc l) @ [chunk]),
                          is_text = t\<rparr> (content m'))"
  shows "handle_message E fc l d True =
           (if killed m' then ([WebsocketMessageHook f1], l3, None)
            else (WebsocketMessageHook f1 # fst parts, set_dst_ws fc (fst (snd parts)) l3,
                  snd (snd parts)))"
  unfolding handle_message_def Fragmentizer_init_def
  by (simp add: Let_def ws case_prod_beta set_src_ws_def src_ws_def dst_ws_def
        chunk_def t_def m_def f1_def m'_def l3_def parts_def)

text \<open>
  Claim C6. When a message is completed in a flow that has its WebSocket data, and the
  message the hook leaves at the end of the flow's message sequence is killed, then no
  \<open>SendData\<close> command is yielded for it, the message sequence is the old one with that
  message appended, no exception ends the handler and the handler stays the same: the
  session goes on.
\<close>

theorem killed_message_not_forwarded:
  fixes E :: "'p env" and fc :: bool and d :: msg_data
  assumes ws: "websocket (flow l) = Some wsd"
  defines "out \<equiv> handle_ws_event E fc l (Message d True)"
  assumes ws': "websocket (flow (fst (snd out))) = Some wsd'"
    and k: "killed (last (messages wsd'))"
  shows "filter is_send (fst out) = [] \<and>
         messages wsd' = messages wsd @ [last (messages wsd')] \<and>
         snd (snd out) = None \<and>
         handle_event_attr (fst (snd out)) = handle_event_attr l"
  using ws' k
  unfolding out_def handle_ws_event_def ws_event.case handle_message_finished[OF ws]
  by (auto simp: Let_def split: if_splits)

theorem killed_message_not_forwarded_witness:
  "filter is_send (fst (handle_ws_event (sample_env hook_kill) True (sample_layer OPEN [] OPEN [])
                          (Message (Bytes [1, 2]) True))) = [] \<and>
   snd (snd (handle_ws_event (sample_env hook_kill) True (sample_layer OPEN [] OPEN [])
               (Message (Bytes [1, 2]) True))) = None \<and>
   handle_event_attr (fst (snd (handle_ws_event (sample_env hook_kill) True
       (sample_layer OPEN [] OPEN []) (Message (Bytes [1, 2]) True)))) = H_relay_messages"
proof -
  have h1: "websocket (flow (sample_layer OPEN [] OPEN []))
            = Some \<lparr>messages = [], closed_by_client = None, close_code = None,
                    close_reason = None\<rparr>"
    by (simp add: sample_layer_def)
  have h2: "websocket (flow (fst (snd (handle_ws_event (sample_env hook_kill) True
                (sample_layer OPEN [] OPEN []) (Message (Bytes [1, 2]) True)))))
            = Some \<lparr>messages = [\<lparr>mtype = BINARY, from_client = True, content = [1, 2],
                                  killed = True\<rparr>],
                    closed_by_client = None, close_code = None, close_reason = None\<rparr>"
    by (simp add: handle_ws_event_def handle_message_def Fragmentizer_init_def Let_def
          src_ws_def set_src_ws_def sample_defs)
  have h3: "killed (last (messages \<lparr>messages = [\<lparr>mtype = BINARY, from_client = True,
                                                  content = [1, 2], killed = True\<rparr>],
                    closed_by_client = None, close_code = None, close_reason = None\<rparr>))"
    by simp
  have a: "handle_event_attr (sample_layer OPEN [] OPEN []) = H_relay_messages"
    by (simp add: sample_layer_def)
  show ?thesis
    using killed_message_not_forwarded[OF h1 h2 h3] by (simp add: a)
qed

text \<open>
  Claim C9. \<open>Fragmentizer.__call__\<close> yields no part for empty content, so that a
  completed message whose content the hook leaves empty yields no \<open>SendData\<close> command.
\<close>

theorem empty_content_not_forwarded:
  fixes E :: "'p env" and fc :: bool and d :: msg_data
  assumes ws: "websocket (flow l) = Some wsd"
  defines "out \<equiv> handle_ws_event E fc l (Message d True)"
  assumes ws': "websocket (flow (fst (snd out))) = Some wsd'"
    and e: "content (last (messages wsd')) = []"
  shows "Fragmentizer_call (bytes_decode E) F [] = [] \<and> filter is_send (fst out) = []"
proof -
  have c: "\<And>G. Fragmentizer_call (bytes_decode E) G [] = []"
    by (simp add: Fragmentizer_call_def msg_calls_def)
  show ?thesis
    using ws' e
    unfolding out_def handle_ws_event_def ws_event.case handle_message_finished[OF ws]
    by (auto simp: Let_def c split: if_splits)
qed

theorem empty_content_not_forwarded_witness:
  "filter is_send (fst (handle_ws_event (sample_env hook_empty) True (sample_layer OPEN [] OPEN [])
                          (Message (Bytes [1, 2]) True))) = []"
proof -
  have h1: "websocket (flow (sample_layer OPEN [] OPEN []))
            = Some \<lparr>messages = [], closed_by_client = None, close_code = None,
                    close_reason = None\<rparr>"
    by (simp add: sample_layer_def)
  have h2: "websocket (flow (fst (snd (handle_ws_event (sample_env hook_empty) True
                (sample_layer OPEN [] OPEN []) (Message (Bytes [1, 2]) True)))))
            = Some \<lparr>messages = [\<lparr>mtype = BINARY, from_client = True, content = [],
                                  killed = False\<rparr>],
                    closed_by_client = None, close_code = None, close_reason = None\<rparr>"
    by (simp add: handle_ws_event_def handle_message_def Fragmentizer_init_def Let_def
          Fragmentizer_call_def msg_calls_def src_ws_def set_src_ws_def dst_ws_def
          set_dst_ws_def sample_defs)
  have h3: "content (last (messages \<lparr>messages = [\<lparr>mtype = BINARY, from_client = True,
                                                   content = [], killed = False\<rparr>],
                    closed_by_client = None, close_code = None, close_reason = None\<rparr>)) = []"
    by simp
  show ?thesis
    using empty_content_not_forwarded[OF h1 h2 h3] by simp
qed

text \<open>
  Claim C10. The Fragmentizer is built from the frame buffer of the source right after
  the chunk of the event has been appended to it, so the list is not empty and
  \<open>Fragmentizer.__init__\<close> returns; handling a message event never ends in an
  AssertionError.
\<close>

theorem fragmentizer_construction_total:
  fixes E :: "'p env" and l :: "'p WebsocketLayer"
  shows "Fragmentizer_init (frame_buf (src_ws fc l) @ [chunk]) t
           = Inr \<lparr>fragment_lengths = map length (frame_buf (src_ws fc l)) @ [length chunk],
                  is_text = t\<rparr> \<and>
         snd (snd (handle_ws_event E fc l (Message d fin))) \<noteq> Some (AssertionError s)"
proof -
  have "snd (snd (handle_message E fc l d fin)) \<noteq> Some (AssertionError s)"
    unfolding handle_message_def Fragmentizer_init_def
    using send_parts_exception
    by (auto simp: Let_def case_prod_beta split: option.splits)
  then show ?thesis
    by (simp add: handle_ws_event_def Fragmentizer_init_def)
qed

theorem fragmentizer_construction_total_witness:
  "Fragmentizer_init (frame_buf (src_ws True (sample_layer OPEN [] OPEN [])) @ [[1, 2]]) False
     = Inr \<lparr>fragment_lengths = [2], is_text = False\<rparr>"
  using fragmentizer_construction_total[of True "sample_layer OPEN [] OPEN []" "[1, 2]" False]
  by (simp add: src_ws_def sample_layer_def)

subsection \<open>Faults\<close>

lemma unexpected_event_raises:
  "handle_ws_event E fc l OtherEvent = ([], l, Some (AssertionError ''Unexpected WebSocket event''))"
  by (simp add: handle_ws_event_def)




end
